theory Spec2Isabelle
  imports Complex_Main "HOL-Library.AList"
begin

section \<open>The Gapminder dashboard (dash-app.py)\<close>

text \<open>
  The program loads one table, \<^verbatim>\<open>gapminder = pd.read_csv(url)\<close>, and registers five
  callbacks that read it.  The table is the only global the callbacks read, so every
  handler below takes it as its first argument.  The calls into pandas, plotly express
  and dash.html are modelled by the functions of the first subsections, each named after
  the library function it stands for.
\<close>

subsection \<open>Values, errors and data frames\<close>

text \<open>
  A cell of the table: a string (object column), an integer, a float or a missing value.
  Floats are carried as exact real numbers; no handler of the program does arithmetic on
  them itself.
\<close>

datatype cell = Str string | Integer int | Float real | NaN

datatype py_error = KeyError | ValueError

text \<open>
  A data frame: its column labels and its rows, in order.  A frame read by
  \<^verbatim>\<open>read_csv\<close> has pairwise different labels and rows as long as the label list.
\<close>

record frame =
  columns :: "string list"
  rows :: "cell list list"

definition frame_ok :: "frame \<Rightarrow> bool" where
  "frame_ok df = (distinct (columns df) \<and> list_all (\<lambda>r. length r = length (columns df)) (rows df))"

text \<open>\<^verbatim>\<open>df.head(n)\<close> is \<^verbatim>\<open>df.iloc[:n]\<close>: a negative \<open>n\<close> drops the last \<open>-n\<close> rows.\<close>

definition head :: "frame \<Rightarrow> int \<Rightarrow> frame" where
  "head df n =
     df\<lparr>rows := (if 0 \<le> n then take (nat n) (rows df)
                 else take (nat (int (length (rows df)) + n)) (rows df))\<rparr>"

text \<open>
  A Python dict keeps its keys in insertion order; storing under a key that is already
  there replaces the value and keeps the key's place.  \<^verbatim>\<open>dict(pairs)\<close> stores the
  pairs from left to right.
\<close>

type_synonym py_dict = "(string \<times> cell) list"

definition dict :: "(string \<times> cell) list \<Rightarrow> py_dict" where
  "dict kvs = foldl (\<lambda>d (k, v). AList.update k v d) [] kvs"

definition dict_values :: "py_dict \<Rightarrow> cell list" where
  "dict_values d = map snd d"

text \<open>\<^verbatim>\<open>df.to_dict("records")\<close>: one dict per row, \<^verbatim>\<open>dict(zip(columns, row))\<close>.\<close>

definition to_dict_records :: "frame \<Rightarrow> py_dict list" where
  "to_dict_records df = map (\<lambda>r. dict (zip (columns df) r)) (rows df)"

text \<open>
  \<^verbatim>\<open>df[label]\<close>: the column under a label, \<^verbatim>\<open>KeyError\<close> when there is none.  A row
  that is too short reads as missing, as \<^verbatim>\<open>read_csv\<close> pads it.
\<close>

fun index_of :: "string \<Rightarrow> string list \<Rightarrow> nat option" where
  "index_of c [] = None"
| "index_of c (x # xs) = (if x = c then Some 0 else map_option Suc (index_of c xs))"

definition nth_cell :: "cell list \<Rightarrow> nat \<Rightarrow> cell" where
  "nth_cell r j = (if j < length r then r ! j else NaN)"

definition getitem :: "frame \<Rightarrow> string \<Rightarrow> py_error + cell list" where
  "getitem df c =
     (case index_of c (columns df) of
        None \<Rightarrow> Inl KeyError
      | Some j \<Rightarrow> Inr (map (\<lambda>r. nth_cell r j) (rows df)))"

text \<open>The cell of a row under a label (missing when the frame has no such column).\<close>

definition field :: "frame \<Rightarrow> string \<Rightarrow> cell list \<Rightarrow> cell" where
  "field df c r = (case index_of c (columns df) of None \<Rightarrow> NaN | Some j \<Rightarrow> nth_cell r j)"

definition has_columns :: "frame \<Rightarrow> string list \<Rightarrow> bool" where
  "has_columns df cs = list_all (\<lambda>c. c \<in> set (columns df)) cs"

text \<open>
  \<^verbatim>\<open>series == value\<close>, element by element: strings equal strings, numbers equal numbers
  of the same value, a missing value equals nothing.
\<close>

fun cell_eq :: "cell \<Rightarrow> cell \<Rightarrow> bool" where
  "cell_eq (Str a) (Str b) = (a = b)"
| "cell_eq (Integer a) (Integer b) = (a = b)"
| "cell_eq (Integer a) (Float b) = (real_of_int a = b)"
| "cell_eq (Float a) (Integer b) = (a = real_of_int b)"
| "cell_eq (Float a) (Float b) = (a = b)"
| "cell_eq _ _ = False"

definition eq_mask :: "cell list \<Rightarrow> cell \<Rightarrow> bool list" where
  "eq_mask col v = map (\<lambda>c. cell_eq c v) col"

text \<open>\<^verbatim>\<open>df[mask]\<close> with a boolean mask: the rows at which the mask is true, in order.\<close>

definition getitem_mask :: "frame \<Rightarrow> bool list \<Rightarrow> frame" where
  "getitem_mask df bools = df\<lparr>rows := map fst (filter snd (zip (rows df) bools))\<rparr>"

text \<open>\<^verbatim>\<open>df[[c1, c2, ...]]\<close>: the frame of the listed columns, \<^verbatim>\<open>KeyError\<close> when one is not there.\<close>

definition getitem_list :: "frame \<Rightarrow> string list \<Rightarrow> py_error + frame" where
  "getitem_list df cs =
     (if has_columns df cs
      then Inr \<lparr>columns = cs, rows = map (\<lambda>r. map (\<lambda>c. field df c r) cs) (rows df)\<rparr>
      else Inl KeyError)"

subsection \<open>Pearson correlation of a frame\<close>

text \<open>
  \<^verbatim>\<open>df.corr()\<close> with its defaults (\<^verbatim>\<open>method="pearson", min_periods=1\<close>).  A string
  cell cannot be converted to a float (\<^verbatim>\<open>ValueError\<close>).  For each pair of columns the
  rows at which both values are present are used; fewer than \<^verbatim>\<open>min_periods\<close> such rows,
  or a zero divisor, give a missing value.  The arithmetic is exact here, where pandas
  computes in IEEE doubles.
\<close>

record matrix =
  row_labels :: "string list"
  col_labels :: "string list"
  entries :: "cell list list"

fun is_str :: "cell \<Rightarrow> bool" where
  "is_str (Str s) = True"
| "is_str _ = False"

fun float_of :: "cell \<Rightarrow> real option" where
  "float_of (Integer i) = Some (real_of_int i)"
| "float_of (Float x) = Some x"
| "float_of _ = None"

fun both_present :: "real option \<times> real option \<Rightarrow> (real \<times> real) option" where
  "both_present (Some a, Some b) = Some (a, b)"
| "both_present _ = None"

definition pearson :: "real option list \<Rightarrow> real option list \<Rightarrow> cell" where
  "pearson xs ys =
     (let ps = List.map_filter both_present (zip xs ys); nobs = length ps in
      if nobs < 1 then NaN
      else
        let meanx = sum_list (map fst ps) / real nobs;
            meany = sum_list (map snd ps) / real nobs;
            ssqdmx = sum_list (map (\<lambda>p. (fst p - meanx) * (fst p - meanx)) ps);
            ssqdmy = sum_list (map (\<lambda>p. (snd p - meany) * (snd p - meany)) ps);
            covxy = sum_list (map (\<lambda>p. (fst p - meanx) * (snd p - meany)) ps);
            divisor = sqrt (ssqdmx * ssqdmy)
        in if divisor \<noteq> 0 then Float (max (- 1) (min 1 (covxy / divisor))) else NaN)"

definition corr :: "frame \<Rightarrow> py_error + matrix" where
  "corr df =
     (let cols = map (\<lambda>c. map (\<lambda>r. field df c r) (rows df)) (columns df) in
      if list_ex is_str (concat cols) then Inl ValueError
      else Inr \<lparr>row_labels = columns df, col_labels = columns df,
                entries = map (\<lambda>x. map (\<lambda>y. pearson (map float_of x) (map float_of y)) cols) cols\<rparr>)"

subsection \<open>Figures of plotly express\<close>

text \<open>
  A figure is described by the arguments it was built from: the kind of chart, the data
  it is drawn over, the columns bound to its encodings and its title.  A column
  argument that is not a label of the frame is a \<^verbatim>\<open>ValueError\<close>, and so is a marker
  size that is not a number greater or equal to zero.  How plotly draws the figure is
  not part of the model.
\<close>

datatype colorscale = Plasma

datatype figure =
    Scatter frame string string string string string string
  | Line frame string string string bool
  | Choropleth frame string string string string string colorscale
  | Imshow matrix bool "(string \<times> string) list" string



definition px_line :: "frame \<Rightarrow> string \<Rightarrow> string \<Rightarrow> string \<Rightarrow> bool \<Rightarrow> py_error + figure" where
  "px_line data_frame x y title markers =
     (if \<not> has_columns data_frame [x, y] then Inl ValueError
      else Inr (Line data_frame x y title markers))"

definition px_choropleth ::
  "frame \<Rightarrow> string \<Rightarrow> string \<Rightarrow> string \<Rightarrow> string \<Rightarrow> string \<Rightarrow> colorscale \<Rightarrow> py_error + figure" where
  "px_choropleth data_frame locations locationmode color hover_name title color_continuous_scale =
     (if \<not> has_columns data_frame [locations, color, hover_name] then Inl ValueError
      else Inr (Choropleth data_frame locations locationmode color hover_name title
                  color_continuous_scale))"

definition px_imshow :: "matrix \<Rightarrow> bool \<Rightarrow> (string \<times> string) list \<Rightarrow> string \<Rightarrow> py_error + figure" where
  "px_imshow img text_auto labels title = Inr (Imshow img text_auto labels title)"

text \<open>The rows a figure is drawn over: one point, or one cell row, each.\<close>

fun figure_rows :: "figure \<Rightarrow> cell list list" where
  "figure_rows (Scatter df x y color size_col hover_name title) = rows df"
| "figure_rows (Line df x y title markers) = rows df"
| "figure_rows (Choropleth df locations locationmode color hover_name title scale) = rows df"
| "figure_rows (Imshow img text_auto labels title) = entries img"

text \<open>\<^verbatim>\<open>str(n)\<close> of an integer, as an f-string formats it.\<close>

fun str_nat :: "nat \<Rightarrow> string" where
  "str_nat n =
     (if n < 10 then [''0123456789'' ! n]
      else str_nat (n div 10) @ [''0123456789'' ! (n mod 10)])"

declare str_nat.simps [simp del]

definition str_int :: "int \<Rightarrow> string" where
  "str_int i = (if i < 0 then CHR ''-'' # str_nat (nat (- i)) else str_nat (nat i))"

subsection \<open>The components of dash.html\<close>

datatype component =
    Div "component list"
  | Table "component list" "(string \<times> string) list"
  | Thead component
  | Tbody "component list"
  | Tr "component list"
  | Th string
  | Td cell

subsection \<open>Introduction tab: the data preview\<close>

text \<open>
  \<^verbatim>\<open>
  def update_table(rows):
      preview = gapminder.head(rows).to_dict("records")
      return html.Div([
          html.Table([
              html.Thead(html.Tr([html.Th(col) for col in gapminder.columns])),
              html.Tbody([
                  html.Tr([html.Td(cell) for cell in row.values()])
                  for row in preview
              ])
          ], style={"width": "100%", "border": "1px solid black", "border-collapse": "collapse"})
      ])
  \<close>
\<close>

text \<open>The parameter \<^verbatim>\<open>rows\<close> of the source is \<open>n\<close> here.\<close>

definition update_table :: "frame \<Rightarrow> int \<Rightarrow> component" where
  "update_table gapminder n =
     (let preview = to_dict_records (head gapminder n) in
      Div [
        Table [
          Thead (Tr (map Th (columns gapminder))),
          Tbody (map (\<lambda>row. Tr (map Td (dict_values row))) preview)
        ] [(''width'', ''100%''), (''border'', ''1px solid black''),
           (''border-collapse'', ''collapse'')]
      ])"

text \<open>The slider that feeds \<open>update_table\<close>: \<^verbatim>\<open>min=5, max=50, step=5\<close>.\<close>

definition row_slider :: "int \<Rightarrow> bool" where
  "row_slider n = (5 \<le> n \<and> n \<le> 50 \<and> (n - 5) mod 5 = 0)"

text \<open>Reading a rendered table back: the header labels and the cells of the body rows.\<close>

fun th_label :: "component \<Rightarrow> string" where
  "th_label (Th s) = s"
| "th_label _ = []"

fun td_cell :: "component \<Rightarrow> cell" where
  "td_cell (Td c) = c"
| "td_cell _ = NaN"

fun tr_cells :: "component \<Rightarrow> cell list" where
  "tr_cells (Tr tds) = map td_cell tds"
| "tr_cells _ = []"

fun table_header :: "component \<Rightarrow> string list" where
  "table_header (Div [Table [Thead (Tr ths), Tbody trs] style]) = map th_label ths"
| "table_header _ = []"

fun table_body :: "component \<Rightarrow> cell list list" where
  "table_body (Div [Table [Thead (Tr ths), Tbody trs] style]) = map tr_cells trs"
| "table_body _ = []"

subsection \<open>Scatterplots tab\<close>


text \<open>The options of the axis dropdowns and of the map's variable dropdown.\<close>

definition numeric_fields :: "string list" where
  "numeric_fields = [''gdpPercap'', ''lifeExp'', ''pop'']"

subsection \<open>Trend Analysis tab\<close>

text \<open>
  \<^verbatim>\<open>
  def update_trend_chart(selected_country):
      country_data = gapminder[gapminder["country"] == selected_country]
      fig = px.line(country_data, x="year", y="lifeExp",
                    title=f"Life Expectancy Over Time for {selected_country}", markers=True)
      return fig
  \<close>
\<close>

definition update_trend_chart :: "frame \<Rightarrow> string \<Rightarrow> py_error + figure" where
  "update_trend_chart gapminder selected_country =
     (case getitem gapminder ''country'' of
        Inl e \<Rightarrow> Inl e
      | Inr col \<Rightarrow>
          let country_data = getitem_mask gapminder (eq_mask col (Str selected_country)) in
          px_line country_data ''year'' ''lifeExp''
            (''Life Expectancy Over Time for '' @ selected_country) True)"

subsection \<open>Map Visualization tab\<close>

text \<open>
  \<^verbatim>\<open>
  def update_map_chart(selected_year, variable):
      year_data = gapminder[gapminder["year"] == selected_year]
      fig = px.choropleth(year_data, locations="country", locationmode="country names",
                          color=variable, hover_name="country",
                          title=f"{variable} in {selected_year}",
                          color_continuous_scale=px.colors.sequential.Plasma)
      return fig
  \<close>
\<close>

definition update_map_chart :: "frame \<Rightarrow> int \<Rightarrow> string \<Rightarrow> py_error + figure" where
  "update_map_chart gapminder selected_year variable =
     (case getitem gapminder ''year'' of
        Inl e \<Rightarrow> Inl e
      | Inr col \<Rightarrow>
          let year_data = getitem_mask gapminder (eq_mask col (Integer selected_year)) in
          px_choropleth year_data ''country'' ''country names'' variable ''country''
            (variable @ '' in '' @ str_int selected_year) Plasma)"

subsection \<open>Correlation Analysis tab\<close>

text \<open>
  \<^verbatim>\<open>
  def update_correlation_matrix(selected_continent):
      continent_data = gapminder[gapminder["continent"] == selected_continent]
      correlation_matrix = continent_data[["gdpPercap", "lifeExp", "pop"]].corr()
      fig = px.imshow(correlation_matrix, text_auto=True, labels={"color": "Correlation"},
                      title=f"Correlation Matrix for {selected_continent}")
      return fig
  \<close>
\<close>

definition update_correlation_matrix :: "frame \<Rightarrow> string \<Rightarrow> py_error + figure" where
  "update_correlation_matrix gapminder selected_continent =
     (case getitem gapminder ''continent'' of
        Inl e \<Rightarrow> Inl e
      | Inr col \<Rightarrow>
          let continent_data = getitem_mask gapminder (eq_mask col (Str selected_continent)) in
          (case getitem_list continent_data [''gdpPercap'', ''lifeExp'', ''pop''] of
             Inl e \<Rightarrow> Inl e
           | Inr sub \<Rightarrow>
               (case corr sub of
                  Inl e \<Rightarrow> Inl e
                | Inr correlation_matrix \<Rightarrow>
                    px_imshow correlation_matrix True [(''color'', ''Correlation'')]
                      (''Correlation Matrix for '' @ selected_continent))))"

subsection \<open>The callbacks and the page\<close>









subsection \<open>Notions the properties are stated with\<close>

text \<open>Numbers compare by value; a string or a missing value is not below or above anything.\<close>

fun cell_le :: "cell \<Rightarrow> cell \<Rightarrow> bool" where
  "cell_le (Integer a) (Integer b) = (a \<le> b)"
| "cell_le (Integer a) (Float b) = (real_of_int a \<le> b)"
| "cell_le (Float a) (Integer b) = (a \<le> real_of_int b)"
| "cell_le (Float a) (Float b) = (a \<le> b)"
| "cell_le _ _ = False"

text \<open>A list of rows of a frame is increasing in year.\<close>

definition year_ordered :: "frame \<Rightarrow> cell list list \<Rightarrow> bool" where
  "year_ordered df rs =
     sorted_wrt (\<lambda>a b. cell_le (field df ''year'' a) (field df ''year'' b)) rs"

text \<open>The rows of a frame are listed so that, within each country, the year increases.\<close>

definition ordered_within_country :: "frame \<Rightarrow> bool" where
  "ordered_within_country df =
     sorted_wrt (\<lambda>a b. field df ''country'' a = field df ''country'' b
                   \<longrightarrow> cell_le (field df ''year'' a) (field df ''year'' b)) (rows df)"

text \<open>No cell of the frame under the given label is a string.\<close>

definition numeric_column :: "frame \<Rightarrow> string \<Rightarrow> bool" where
  "numeric_column df c = list_all (\<lambda>r. \<not> is_str (field df c r)) (rows df)"

text \<open>The rows of a frame that have the given value under the given label.\<close>

definition rows_where :: "frame \<Rightarrow> string \<Rightarrow> cell \<Rightarrow> cell list list" where
  "rows_where df c v = filter (\<lambda>r. cell_eq (field df c r) v) (rows df)"

text \<open>The values a column takes: the options of the dropdown built from it.\<close>

definition unique :: "frame \<Rightarrow> string \<Rightarrow> cell set" where
  "unique df c = set (map (field df c) (rows df))"

subsection \<open>A small table\<close>

text \<open>Seven rows in the layout of the CSV file, used to evaluate the handlers.\<close>

definition sample :: frame where
  "sample = \<lparr>columns = [''country'', ''year'', ''pop'', ''continent'', ''lifeExp'', ''gdpPercap''],
     rows = [
       [Str ''Afghanistan'', Integer 1952, Integer 8425333, Str ''Asia'', Float 28.801, Float 779.445],
       [Str ''Afghanistan'', Integer 1957, Integer 9240934, Str ''Asia'', Float 30.332, Float 820.853],
       [Str ''Albania'', Integer 1952, Integer 1282697, Str ''Europe'', Float 55.23, Float 1601.056],
       [Str ''Albania'', Integer 1957, Integer 1476505, Str ''Europe'', Float 59.28, Float 1942.284],
       [Str ''Algeria'', Integer 1952, Integer 9279525, Str ''Africa'', Float 43.077, Float 2449.008],
       [Str ''Algeria'', Integer 1957, Integer 10270856, Str ''Africa'', Float 45.685, Float 3013.976],
       [Str ''Australia'', Integer 1952, Integer 8691212, Str ''Oceania'', Float 69.12, Float 10039.596]
     ]\<rparr>"

text \<open>The same layout, with the two rows of one country in the other order.\<close>

definition shuffled :: frame where
  "shuffled = \<lparr>columns = [''country'', ''year'', ''pop'', ''continent'', ''lifeExp'', ''gdpPercap''],
     rows = [
       [Str ''Afghanistan'', Integer 1952, Integer 8425333, Str ''Asia'', Float 28.801, Float 779.445],
       [Str ''Albania'', Integer 1957, Integer 1476505, Str ''Europe'', Float 59.28, Float 1942.284],
       [Str ''Albania'', Integer 1952, Integer 1282697, Str ''Europe'', Float 55.23, Float 1601.056]
     ]\<rparr>"

section \<open>Properties\<close>

subsection \<open>Dicts built from a row\<close>

lemma update_append_fresh:
  "k \<notin> fst ` set d \<Longrightarrow> AList.update k v d = d @ [(k, v)]"
  by (induction d) auto

lemma foldl_update_zip:
  "distinct ks \<Longrightarrow> length ks = length vs \<Longrightarrow> set ks \<inter> fst ` set d = {} \<Longrightarrow>
   foldl (\<lambda>d (k, v). AList.update k v d) d (zip ks vs) = d @ zip ks vs"
proof (induction ks arbitrary: vs d)
  case Nil
  then show ?case by simp
next
  case (Cons k ks)
  then obtain v vs' where vs: "vs = v # vs'" by (cases vs) auto
  have fresh: "k \<notin> fst ` set d" using Cons.prems(3) by auto
  have step: "AList.update k v d = d @ [(k, v)]"
    using fresh by (rule update_append_fresh)
  have disj: "set ks \<inter> fst ` set (d @ [(k, v)]) = {}"
    using Cons.prems(1,3) by auto
  have "foldl (\<lambda>d (k, v). AList.update k v d) (d @ [(k, v)]) (zip ks vs')
        = (d @ [(k, v)]) @ zip ks vs'"
    using Cons.IH[of vs' "d @ [(k, v)]"] Cons.prems(1,2) disj vs by simp
  then show ?case using vs step by simp
qed

lemma dict_zip:
  "distinct ks \<Longrightarrow> length ks = length vs \<Longrightarrow> dict (zip ks vs) = zip ks vs"
  using foldl_update_zip[of ks vs "[]"] by (simp add: dict_def)

lemma dict_values_row:
  "distinct ks \<Longrightarrow> length ks = length r \<Longrightarrow> dict_values (dict (zip ks r)) = r"
  by (simp add: dict_zip dict_values_def)

lemma frame_ok_take:
  "frame_ok df \<Longrightarrow> r \<in> set (take k (rows df)) \<Longrightarrow> length r = length (columns df)"
  by (auto simp: frame_ok_def list_all_iff dest: in_set_takeD)

lemma preview_rows:
  assumes "frame_ok df"
  shows "map (\<lambda>r. dict_values (dict (zip (columns df) r))) (take k (rows df)) = take k (rows df)"
proof -
  have "\<And>r. r \<in> set (take k (rows df)) \<Longrightarrow> dict_values (dict (zip (columns df) r)) = r"
    using assms frame_ok_take[OF assms] by (simp add: dict_values_row frame_ok_def)
  then show ?thesis by (simp add: map_idI)
qed

lemma table_body_update_table:
  "table_body (update_table df n) = map dict_values (to_dict_records (head df n))"
  by (simp add: update_table_def Let_def comp_def)

lemma table_header_update_table:
  "table_header (update_table df n) = columns df"
  by (simp add: update_table_def Let_def comp_def)

lemma table_body_front:
  assumes "frame_ok df" and "0 \<le> n"
  shows "table_body (update_table df n) = take (nat n) (rows df)"
  using assms preview_rows[OF assms(1), of "nat n"]
  by (simp add: table_body_update_table to_dict_records_def head_def comp_def)

lemma sample_ok: "frame_ok sample"
  by (simp add: frame_ok_def sample_def)

lemma index_of_nth:
  "distinct cs \<Longrightarrow> j < length cs \<Longrightarrow> index_of (cs ! j) cs = Some j"
proof (induction cs arbitrary: j)
  case Nil
  then show ?case by simp
next
  case (Cons c cs)
  show ?case
  proof (cases j)
    case 0
    then show ?thesis by simp
  next
    case (Suc k)
    then have "cs ! k \<noteq> c" using Cons.prems by auto
    then show ?thesis using Suc Cons by simp
  qed
qed

lemma index_of_member:
  "c \<in> set cs \<Longrightarrow> \<exists>j. index_of c cs = Some j \<and> j < length cs"
  by (induction cs) auto

lemma rows_head_take:
  "\<exists>k. rows (head df n) = take k (rows df)"
  by (cases "0 \<le> n") (auto simp: head_def)

lemma table_body_head:
  assumes "frame_ok df"
  shows "table_body (update_table df n) = rows (head df n)"
proof -
  obtain k where k: "rows (head df n) = take k (rows df)"
    using rows_head_take by blast
  have "columns (head df n) = columns df" by (simp add: head_def)
  then show ?thesis
    using preview_rows[OF assms, of k] k
    by (simp add: table_body_update_table to_dict_records_def comp_def)
qed

subsection \<open>The data preview\<close>

text \<open>
  C1.  For every row count \<open>n\<close> of the slider (5 to 50 in steps of 5), the table that
  \<open>update_table\<close> returns has the column labels of the Dataset as its header row, and its
  body is the first \<open>n\<close> rows of the Dataset in Dataset order: \<open>min n (number of rows)\<close>
  rows.
\<close>

theorem update_table_front:
  assumes "frame_ok gapminder" and "row_slider n"
  shows "table_header (update_table gapminder n) = columns gapminder
       \<and> table_body (update_table gapminder n) = take (nat n) (rows gapminder)
       \<and> length (table_body (update_table gapminder n)) = min (nat n) (length (rows gapminder))"
proof -
  have "0 \<le> n" using assms(2) by (simp add: row_slider_def)
  then have body: "table_body (update_table gapminder n) = take (nat n) (rows gapminder)"
    using assms(1) by (rule table_body_front[rotated])
  show ?thesis
    using body by (simp add: table_header_update_table min.commute)
qed

theorem update_table_front_witness:
  "frame_ok sample \<and> row_slider 5 \<and> row_slider 10
   \<and> table_header (update_table sample 5) = columns sample
   \<and> table_body (update_table sample 5) = take 5 (rows sample)
   \<and> length (table_body (update_table sample 5)) = 5
   \<and> length (table_body (update_table sample 10)) = 7"
proof -
  have s5: "row_slider 5" and s10: "row_slider 10"
    by (simp_all add: row_slider_def)
  have len: "length (rows sample) = 7" by (simp add: sample_def)
  show ?thesis
    using update_table_front[OF sample_ok s5] update_table_front[OF sample_ok s10]
      sample_ok s5 s10 len
    by simp
qed

text \<open>
  C10.  In the table that \<open>update_table\<close> returns, the cell at position \<open>j\<close> of body row
  \<open>i\<close> is the value that row \<open>i\<close> of the Dataset has in the column named by the header at
  position \<open>j\<close>.
\<close>

theorem update_table_aligned:
  assumes "frame_ok gapminder"
    and "i < length (table_body (update_table gapminder n))"
    and "j < length (table_header (update_table gapminder n))"
  shows "\<exists>col. getitem gapminder (table_header (update_table gapminder n) ! j) = Inr col
           \<and> i < length col
           \<and> table_body (update_table gapminder n) ! i ! j = col ! i"
proof -
  obtain k where k: "rows (head gapminder n) = take k (rows gapminder)"
    using rows_head_take by blast
  have body: "table_body (update_table gapminder n) = take k (rows gapminder)"
    using table_body_head[OF assms(1)] k by simp
  have i: "i < length (rows gapminder)" and ik: "i < k"
    using assms(2) body by simp_all
  have row: "table_body (update_table gapminder n) ! i = rows gapminder ! i"
    using body i ik by simp
  have j: "j < length (columns gapminder)"
    using assms(3) by (simp add: table_header_update_table)
  have "rows gapminder ! i \<in> set (rows gapminder)" using i by simp
  then have len: "length (rows gapminder ! i) = length (columns gapminder)"
    using assms(1) by (simp add: frame_ok_def list_all_iff)
  have idx: "index_of (columns gapminder ! j) (columns gapminder) = Some j"
    using assms(1) j by (simp add: frame_ok_def index_of_nth)
  have "getitem gapminder (columns gapminder ! j)
        = Inr (map (\<lambda>r. nth_cell r j) (rows gapminder))"
    by (simp add: getitem_def idx)
  moreover have "map (\<lambda>r. nth_cell r j) (rows gapminder) ! i = rows gapminder ! i ! j"
    using i j len by (simp add: nth_cell_def)
  ultimately show ?thesis
    using row i by (simp add: table_header_update_table)
qed

theorem update_table_aligned_witness:
  "frame_ok sample
   \<and> (1::nat) < length (table_body (update_table sample 5))
   \<and> (3::nat) < length (table_header (update_table sample 5))
   \<and> table_header (update_table sample 5) ! 3 = ''continent''
   \<and> table_body (update_table sample 5) ! 1 ! 3 = Str ''Asia''
   \<and> (\<exists>col. getitem sample (table_header (update_table sample 5) ! 3) = Inr col
         \<and> 1 < length col
         \<and> table_body (update_table sample 5) ! 1 ! 3 = col ! 1)"
proof -
  have body: "table_body (update_table sample 5) = take 5 (rows sample)"
    using table_body_front[OF sample_ok, of 5] by simp
  have hdr: "table_header (update_table sample 5) = columns sample"
    by (rule table_header_update_table)
  have i: "(1::nat) < length (table_body (update_table sample 5))"
    unfolding body by (simp add: sample_def)
  have j: "(3::nat) < length (table_header (update_table sample 5))"
    unfolding hdr by (simp add: sample_def)
  have c: "table_header (update_table sample 5) ! 3 = ''continent''"
    unfolding hdr by (simp add: sample_def)
  have v: "table_body (update_table sample 5) ! 1 ! 3 = Str ''Asia''"
    unfolding body by (simp add: sample_def)
  show ?thesis
    using update_table_aligned[OF sample_ok i j] sample_ok i j c v by blast
qed

subsection \<open>Filtering rows by a column\<close>

lemma mask_filter:
  "map fst (filter snd (zip xs (map f xs))) = filter f xs"
  by (induction xs) auto

lemma field_getitem:
  "index_of c (columns df) = Some j \<Longrightarrow>
   getitem df c = Inr (map (field df c) (rows df))"
  by (simp add: getitem_def field_def)

lemma has_columns_index:
  "has_columns df cs \<Longrightarrow> c \<in> set cs \<Longrightarrow> \<exists>j. index_of c (columns df) = Some j"
  using index_of_member[of c "columns df"]
  by (auto simp: has_columns_def list_all_iff)

lemma getitem_eq_mask:
  assumes "index_of c (columns df) = Some j"
  shows "getitem df c = Inr (map (field df c) (rows df))
       \<and> getitem_mask df (eq_mask (map (field df c) (rows df)) v)
           = df\<lparr>rows := rows_where df c v\<rparr>"
  using field_getitem[OF assms]
  by (simp add: getitem_mask_def eq_mask_def rows_where_def comp_def
      mask_filter[of "rows df" "\<lambda>r. cell_eq (field df c r) v"])

lemma cell_eq_Str: "cell_eq c (Str s) = (c = Str s)"
  by (cases c) auto

lemma has_columns_rows_update:
  "has_columns (df\<lparr>rows := rs\<rparr>) cs = has_columns df cs"
  by (simp add: has_columns_def)

lemma has_columns_subset:
  "has_columns df cs \<Longrightarrow> set ds \<subseteq> set cs \<Longrightarrow> has_columns df ds"
  by (auto simp: has_columns_def list_all_iff)

lemma rows_where_Str:
  "rows_where df c (Str s) = filter (\<lambda>r. field df c r = Str s) (rows df)"
  by (simp add: rows_where_def cell_eq_Str)

lemma rows_where_absent:
  "Str s \<notin> unique df c \<Longrightarrow> rows_where df c (Str s) = []"
  by (force simp: rows_where_Str unique_def filter_empty_conv)

subsection \<open>The trend chart\<close>

lemma update_trend_chart_eq:
  assumes "has_columns gapminder [''country'', ''year'', ''lifeExp'']"
  shows "update_trend_chart gapminder c =
           Inr (Line (gapminder\<lparr>rows := rows_where gapminder ''country'' (Str c)\<rparr>)
                  ''year'' ''lifeExp'' (''Life Expectancy Over Time for '' @ c) True)"
proof -
  obtain j where j: "index_of ''country'' (columns gapminder) = Some j"
    using has_columns_index[OF assms, of "''country''"] by auto
  have cols: "has_columns (gapminder\<lparr>rows := rows_where gapminder ''country'' (Str c)\<rparr>)
                [''year'', ''lifeExp'']"
    using has_columns_subset[OF assms, of "[''year'', ''lifeExp'']"]
    by (simp add: has_columns_rows_update)
  show ?thesis
    using getitem_eq_mask[OF j, of "Str c"] cols
    by (simp add: update_trend_chart_def px_line_def)
qed

text \<open>
  C2 (amended).  For every country selection, the trend handler returns a line chart
  drawn over exactly the Dataset rows whose country field equals the selection, in
  Dataset order.  The handler does not sort: the rows of the chart are increasing in
  year whenever the Dataset lists the rows of each country in increasing year.
\<close>

theorem update_trend_chart_rows:
  assumes "has_columns gapminder [''country'', ''year'', ''lifeExp'']"
  shows "update_trend_chart gapminder c =
           Inr (Line (gapminder\<lparr>rows := filter (\<lambda>r. field gapminder ''country'' r = Str c)
                                            (rows gapminder)\<rparr>)
                  ''year'' ''lifeExp'' (''Life Expectancy Over Time for '' @ c) True)
       \<and> (ordered_within_country gapminder \<longrightarrow>
            year_ordered gapminder
              (filter (\<lambda>r. field gapminder ''country'' r = Str c) (rows gapminder)))"
proof -
  let ?P = "\<lambda>r. field gapminder ''country'' r = Str c"
  let ?R = "\<lambda>a b. field gapminder ''country'' a = field gapminder ''country'' b
              \<longrightarrow> cell_le (field gapminder ''year'' a) (field gapminder ''year'' b)"
  let ?Q = "\<lambda>a b. cell_le (field gapminder ''year'' a) (field gapminder ''year'' b)"
  have chart: "update_trend_chart gapminder c =
                 Inr (Line (gapminder\<lparr>rows := filter ?P (rows gapminder)\<rparr>)
                        ''year'' ''lifeExp'' (''Life Expectancy Over Time for '' @ c) True)"
    using update_trend_chart_eq[OF assms, of c] by (simp add: rows_where_Str)
  have order: "year_ordered gapminder (filter ?P (rows gapminder))"
    if "ordered_within_country gapminder"
  proof -
    have "sorted_wrt ?R (filter ?P (rows gapminder))"
      using that unfolding ordered_within_country_def by (rule sorted_wrt_filter)
    then have "sorted_wrt ?Q (filter ?P (rows gapminder))"
      by (rule sorted_wrt_mono_rel[rotated]) auto
    then show ?thesis by (simp add: year_ordered_def)
  qed
  show ?thesis using chart order by blast
qed

lemma sample_field:
  "field sample ''country'' r = nth_cell r 0"
  "field sample ''year'' r = nth_cell r 1"
  "field sample ''pop'' r = nth_cell r 2"
  "field sample ''continent'' r = nth_cell r 3"
  "field sample ''lifeExp'' r = nth_cell r 4"
  "field sample ''gdpPercap'' r = nth_cell r 5"
  by (simp_all add: field_def sample_def eval_nat_numeral)

lemma sample_ordered: "ordered_within_country sample"
  unfolding ordered_within_country_def sample_field
  by (simp add: sample_def nth_cell_def)

theorem update_trend_chart_rows_witness:
  "has_columns sample [''country'', ''year'', ''lifeExp'']
   \<and> ordered_within_country sample
   \<and> update_trend_chart sample ''Albania'' =
       Inr (Line (sample\<lparr>rows := [
              [Str ''Albania'', Integer 1952, Integer 1282697, Str ''Europe'', Float 55.23, Float 1601.056],
              [Str ''Albania'', Integer 1957, Integer 1476505, Str ''Europe'', Float 59.28, Float 1942.284]]\<rparr>)
            ''year'' ''lifeExp'' ''Life Expectancy Over Time for Albania'' True)
   \<and> year_ordered sample [
        [Str ''Albania'', Integer 1952, Integer 1282697, Str ''Europe'', Float 55.23, Float 1601.056],
        [Str ''Albania'', Integer 1957, Integer 1476505, Str ''Europe'', Float 59.28, Float 1942.284]]"
proof -
  have cols: "has_columns sample [''country'', ''year'', ''lifeExp'']"
    by (simp add: has_columns_def sample_def)
  have sel: "filter (\<lambda>r. field sample ''country'' r = Str ''Albania'') (rows sample) = [
        [Str ''Albania'', Integer 1952, Integer 1282697, Str ''Europe'', Float 55.23, Float 1601.056],
        [Str ''Albania'', Integer 1957, Integer 1476505, Str ''Europe'', Float 59.28, Float 1942.284]]"
    unfolding sample_field by (simp add: sample_def nth_cell_def)
  show ?thesis
    using update_trend_chart_rows[OF cols, of "''Albania''"] cols sample_ordered
    unfolding sel by simp
qed

text \<open>
  C2 as stated fails: the rows of a country that the Dataset lists out of year order
  come out in that order.
\<close>

lemma shuffled_field:
  "field shuffled ''country'' r = nth_cell r 0"
  "field shuffled ''year'' r = nth_cell r 1"
  by (simp_all add: field_def shuffled_def)

theorem update_trend_chart_unsorted:
  "Str ''Albania'' \<in> unique shuffled ''country''
   \<and> update_trend_chart shuffled ''Albania'' =
       Inr (Line (shuffled\<lparr>rows := [
              [Str ''Albania'', Integer 1957, Integer 1476505, Str ''Europe'', Float 59.28, Float 1942.284],
              [Str ''Albania'', Integer 1952, Integer 1282697, Str ''Europe'', Float 55.23, Float 1601.056]]\<rparr>)
            ''year'' ''lifeExp'' ''Life Expectancy Over Time for Albania'' True)
   \<and> \<not> year_ordered shuffled [
        [Str ''Albania'', Integer 1957, Integer 1476505, Str ''Europe'', Float 59.28, Float 1942.284],
        [Str ''Albania'', Integer 1952, Integer 1282697, Str ''Europe'', Float 55.23, Float 1601.056]]"
proof -
  have cols: "has_columns shuffled [''country'', ''year'', ''lifeExp'']"
    by (simp add: has_columns_def shuffled_def)
  have sel: "rows_where shuffled ''country'' (Str ''Albania'') = [
        [Str ''Albania'', Integer 1957, Integer 1476505, Str ''Europe'', Float 59.28, Float 1942.284],
        [Str ''Albania'', Integer 1952, Integer 1282697, Str ''Europe'', Float 55.23, Float 1601.056]]"
    unfolding rows_where_Str shuffled_field by (simp add: shuffled_def nth_cell_def)
  have present: "Str ''Albania'' \<in> unique shuffled ''country''"
    unfolding unique_def shuffled_field by (simp add: shuffled_def nth_cell_def)
  have unordered: "\<not> year_ordered shuffled [
        [Str ''Albania'', Integer 1957, Integer 1476505, Str ''Europe'', Float 59.28, Float 1942.284],
        [Str ''Albania'', Integer 1952, Integer 1282697, Str ''Europe'', Float 55.23, Float 1601.056]]"
    unfolding year_ordered_def shuffled_field by (simp add: nth_cell_def)
  show ?thesis
    using update_trend_chart_eq[OF cols, of "''Albania''"] present unordered
    unfolding sel by simp
qed

text \<open>
  C5.  For a country that no row of the Dataset has, the trend handler returns a line
  chart over zero rows, not an error.
\<close>

theorem update_trend_chart_absent:
  assumes "has_columns gapminder [''country'', ''year'', ''lifeExp'']"
    and "Str c \<notin> unique gapminder ''country''"
  shows "update_trend_chart gapminder c =
           Inr (Line (gapminder\<lparr>rows := []\<rparr>)
                  ''year'' ''lifeExp'' (''Life Expectancy Over Time for '' @ c) True)"
  using update_trend_chart_eq[OF assms(1), of c] rows_where_absent[OF assms(2)]
  by simp

theorem update_trend_chart_absent_witness:
  "has_columns sample [''country'', ''year'', ''lifeExp'']
   \<and> Str ''Atlantis'' \<notin> unique sample ''country''
   \<and> update_trend_chart sample ''Atlantis'' =
       Inr (Line (sample\<lparr>rows := []\<rparr>)
              ''year'' ''lifeExp'' ''Life Expectancy Over Time for Atlantis'' True)"
proof -
  have cols: "has_columns sample [''country'', ''year'', ''lifeExp'']"
    by (simp add: has_columns_def sample_def)
  have absent: "Str ''Atlantis'' \<notin> unique sample ''country''"
    unfolding unique_def sample_field by (simp add: sample_def nth_cell_def)
  show ?thesis
    using update_trend_chart_absent[OF cols absent] cols absent by simp
qed

subsection \<open>The map\<close>

lemma update_map_chart_eq:
  assumes "has_columns gapminder [''year'', ''country'', variable]"
  shows "update_map_chart gapminder selected_year variable =
           Inr (Choropleth
                  (gapminder\<lparr>rows := rows_where gapminder ''year'' (Integer selected_year)\<rparr>)
                  ''country'' ''country names'' variable ''country''
                  (variable @ '' in '' @ str_int selected_year) Plasma)"
proof -
  obtain j where j: "index_of ''year'' (columns gapminder) = Some j"
    using has_columns_index[OF assms, of "''year''"] by auto
  have cols: "has_columns
                (gapminder\<lparr>rows := rows_where gapminder ''year'' (Integer selected_year)\<rparr>)
                [''country'', variable, ''country'']"
    using has_columns_subset[OF assms, of "[''country'', variable, ''country'']"]
    by (simp add: has_columns_rows_update)
  show ?thesis
    using getitem_eq_mask[OF j, of "Integer selected_year"] cols
    by (simp add: update_map_chart_def px_choropleth_def)
qed

text \<open>
  C6.  For every year and every variable among gdpPercap, lifeExp and pop, the map
  handler returns a choropleth drawn over exactly the Dataset rows whose year field
  equals the selected year, so it has as many rows as the Dataset has records of that
  year.
\<close>

theorem update_map_chart_rows:
  assumes "has_columns gapminder [''year'', ''country'', ''gdpPercap'', ''lifeExp'', ''pop'']"
    and "variable \<in> set numeric_fields"
  shows "\<exists>fig. update_map_chart gapminder selected_year variable = Inr fig
           \<and> figure_rows fig =
               filter (\<lambda>r. cell_eq (field gapminder ''year'' r) (Integer selected_year))
                 (rows gapminder)
           \<and> length (figure_rows fig) =
               length (filter (\<lambda>r. cell_eq (field gapminder ''year'' r) (Integer selected_year))
                         (rows gapminder))"
proof -
  have "set [''year'', ''country'', variable]
          \<subseteq> set [''year'', ''country'', ''gdpPercap'', ''lifeExp'', ''pop'']"
    using assms(2) by (auto simp: numeric_fields_def)
  then have cols: "has_columns gapminder [''year'', ''country'', variable]"
    using assms(1) by (rule has_columns_subset[rotated])
  show ?thesis
    using update_map_chart_eq[OF cols, of selected_year]
    by (simp add: rows_where_def)
qed

lemma str_int_1957: "str_int 1957 = ''1957''"
  by (simp add: str_int_def str_nat.simps)

theorem update_map_chart_rows_witness:
  "has_columns sample [''year'', ''country'', ''gdpPercap'', ''lifeExp'', ''pop'']
   \<and> ''lifeExp'' \<in> set numeric_fields
   \<and> update_map_chart sample 1957 ''lifeExp'' =
       Inr (Choropleth (sample\<lparr>rows := [
              [Str ''Afghanistan'', Integer 1957, Integer 9240934, Str ''Asia'', Float 30.332, Float 820.853],
              [Str ''Albania'', Integer 1957, Integer 1476505, Str ''Europe'', Float 59.28, Float 1942.284],
              [Str ''Algeria'', Integer 1957, Integer 10270856, Str ''Africa'', Float 45.685, Float 3013.976]]\<rparr>)
            ''country'' ''country names'' ''lifeExp'' ''country'' ''lifeExp in 1957'' Plasma)
   \<and> length (filter (\<lambda>r. cell_eq (field sample ''year'' r) (Integer 1957)) (rows sample)) = 3
   \<and> (\<exists>fig. update_map_chart sample 1957 ''lifeExp'' = Inr fig
         \<and> figure_rows fig =
             filter (\<lambda>r. cell_eq (field sample ''year'' r) (Integer 1957)) (rows sample)
         \<and> length (figure_rows fig) =
             length (filter (\<lambda>r. cell_eq (field sample ''year'' r) (Integer 1957)) (rows sample)))"
proof -
  have cols: "has_columns sample [''year'', ''country'', ''gdpPercap'', ''lifeExp'', ''pop'']"
    by (simp add: has_columns_def sample_def)
  have cols': "has_columns sample [''year'', ''country'', ''lifeExp'']"
    by (simp add: has_columns_def sample_def)
  have var: "''lifeExp'' \<in> set numeric_fields"
    by (simp add: numeric_fields_def)
  have sel: "rows_where sample ''year'' (Integer 1957) = [
      [Str ''Afghanistan'', Integer 1957, Integer 9240934, Str ''Asia'', Float 30.332, Float 820.853],
      [Str ''Albania'', Integer 1957, Integer 1476505, Str ''Europe'', Float 59.28, Float 1942.284],
      [Str ''Algeria'', Integer 1957, Integer 10270856, Str ''Africa'', Float 45.685, Float 3013.976]]"
    unfolding rows_where_def sample_field by (simp add: sample_def nth_cell_def)
  have count: "length (filter (\<lambda>r. cell_eq (field sample ''year'' r) (Integer 1957))
                         (rows sample)) = 3"
    using sel by (simp add: rows_where_def)
  have fig: "update_map_chart sample 1957 ''lifeExp'' =
       Inr (Choropleth (sample\<lparr>rows := [
              [Str ''Afghanistan'', Integer 1957, Integer 9240934, Str ''Asia'', Float 30.332, Float 820.853],
              [Str ''Albania'', Integer 1957, Integer 1476505, Str ''Europe'', Float 59.28, Float 1942.284],
              [Str ''Algeria'', Integer 1957, Integer 10270856, Str ''Africa'', Float 45.685, Float 3013.976]]\<rparr>)
            ''country'' ''country names'' ''lifeExp'' ''country'' ''lifeExp in 1957'' Plasma)"
    using update_map_chart_eq[OF cols', of 1957] unfolding sel by (simp add: str_int_1957)
  show ?thesis
    using update_map_chart_rows[OF cols var, of 1957] cols var count fig by blast
qed

subsection \<open>The scatterplot\<close>




subsection \<open>The handlers and the state of the program\<close>







subsection \<open>The correlation matrix of fewer than two rows\<close>

lemma pearson_one_pair:
  assumes "List.map_filter both_present (zip xs ys) = [(a, b)]"
  shows "pearson xs ys = NaN"
  using assms by (simp add: pearson_def Let_def)

lemma pearson_short:
  assumes "length xs \<le> 1"
  shows "pearson xs ys = NaN"
proof -
  let ?ps = "List.map_filter both_present (zip xs ys)"
  have "length ?ps \<le> length (zip xs ys)"
    unfolding map_filter_def length_map by (rule length_filter_le)
  then have "length ?ps \<le> 1" using assms by simp
  then consider "?ps = []" | p where "?ps = [p]"
    by (cases ?ps) (auto simp: Suc_le_eq)
  then show ?thesis
  proof cases
    case 1
    then show ?thesis by (simp add: pearson_def Let_def)
  next
    case 2
    then show ?thesis using pearson_one_pair[of xs ys "fst p" "snd p"] by simp
  qed
qed

text \<open>Two rows that rise together correlate fully; a column against its mirror image, inversely.\<close>

lemma pearson_two_points:
  "pearson [Some 1, Some 2] [Some 3, Some 5] = Float 1"
  "pearson [Some 1, Some 2] [Some 5, Some 3] = Float (- 1)"
  "pearson [Some 1, None, Some 2] [Some 3, Some 4, Some 5] = Float 1"
  by (simp_all add: pearson_def Let_def map_filter_def)

lemma field_rows_update:
  "field (df\<lparr>rows := rs\<rparr>) c r = field df c r"
  by (simp add: field_def)

lemma corr_short:
  assumes "length rs \<le> 1" and "\<not> list_ex is_str (concat rs)"
    and "list_all (\<lambda>r. length r = 3) rs"
  shows "corr \<lparr>columns = [''gdpPercap'', ''lifeExp'', ''pop''], rows = rs\<rparr> =
           Inr \<lparr>row_labels = [''gdpPercap'', ''lifeExp'', ''pop''],
                col_labels = [''gdpPercap'', ''lifeExp'', ''pop''],
                entries = replicate 3 (replicate 3 NaN)\<rparr>"
proof -
  consider "rs = []" | r where "rs = [r]"
    using assms(1) by (cases rs) (auto simp: Suc_le_eq)
  then show ?thesis
  proof cases
    case 1
    then show ?thesis
      by (simp add: corr_def field_def pearson_short eval_nat_numeral)
  next
    case 2
    then obtain a b c where r: "r = [a, b, c]"
      using assms(3) by (auto simp: length_Suc_conv eval_nat_numeral)
    have "\<not> is_str a" "\<not> is_str b" "\<not> is_str c"
      using assms(2) 2 r by simp_all
    then show ?thesis
      using 2 r
      by (simp add: corr_def field_def nth_cell_def pearson_short eval_nat_numeral)
  qed
qed

text \<open>
  C4.  When fewer than two rows of the Dataset have the selected continent, the
  correlation handler does not raise: it returns a heatmap of a three by three matrix
  in which every entry, none of them being defined, is the missing value.  (With no
  row there is nothing to compute; with one row every deviation from the mean is that
  value minus itself, so the divisor is zero with or without rounding.)
\<close>

theorem update_correlation_matrix_degenerate:
  assumes "has_columns gapminder [''continent'', ''gdpPercap'', ''lifeExp'', ''pop'']"
    and "list_all (numeric_column gapminder) numeric_fields"
    and "length (filter (\<lambda>r. field gapminder ''continent'' r = Str c) (rows gapminder)) < 2"
  shows "update_correlation_matrix gapminder c =
           Inr (Imshow \<lparr>row_labels = [''gdpPercap'', ''lifeExp'', ''pop''],
                        col_labels = [''gdpPercap'', ''lifeExp'', ''pop''],
                        entries = [[NaN, NaN, NaN], [NaN, NaN, NaN], [NaN, NaN, NaN]]\<rparr>
                  True [(''color'', ''Correlation'')] (''Correlation Matrix for '' @ c))"
proof -
  let ?rs = "rows_where gapminder ''continent'' (Str c)"
  let ?cd = "gapminder\<lparr>rows := ?rs\<rparr>"
  let ?sub = "map (\<lambda>r. map (\<lambda>c. field gapminder c r) [''gdpPercap'', ''lifeExp'', ''pop'']) ?rs"
  obtain j where j: "index_of ''continent'' (columns gapminder) = Some j"
    using has_columns_index[OF assms(1), of "''continent''"] by auto
  have data: "getitem gapminder ''continent'' = Inr (map (field gapminder ''continent'') (rows gapminder))"
    and masked: "getitem_mask gapminder
                   (eq_mask (map (field gapminder ''continent'') (rows gapminder)) (Str c)) = ?cd"
    using getitem_eq_mask[OF j, of "Str c"] by simp_all
  have "has_columns gapminder [''gdpPercap'', ''lifeExp'', ''pop'']"
    using has_columns_subset[OF assms(1), of "[''gdpPercap'', ''lifeExp'', ''pop'']"] by simp
  then have sub: "getitem_list ?cd [''gdpPercap'', ''lifeExp'', ''pop''] =
                    Inr \<lparr>columns = [''gdpPercap'', ''lifeExp'', ''pop''], rows = ?sub\<rparr>"
    by (simp add: getitem_list_def has_columns_rows_update field_rows_update)
  have short: "length ?sub \<le> 1"
    using assms(3) by (simp add: rows_where_Str)
  have "set ?rs \<subseteq> set (rows gapminder)"
    by (auto simp: rows_where_def)
  then have numeric: "\<not> list_ex is_str (concat ?sub)"
    using assms(2)
    by (auto simp: numeric_column_def numeric_fields_def list_all_iff list_ex_iff)
  have wide: "list_all (\<lambda>r. length r = 3) ?sub"
    by (simp add: list_all_iff)
  have "corr \<lparr>columns = [''gdpPercap'', ''lifeExp'', ''pop''], rows = ?sub\<rparr> =
           Inr \<lparr>row_labels = [''gdpPercap'', ''lifeExp'', ''pop''],
                col_labels = [''gdpPercap'', ''lifeExp'', ''pop''],
                entries = replicate 3 (replicate 3 NaN)\<rparr>"
    using short numeric wide by (rule corr_short)
  then show ?thesis
    using data masked sub
    by (simp add: update_correlation_matrix_def px_imshow_def eval_nat_numeral)
qed

lemma sample_numeric: "list_all (numeric_column sample) numeric_fields"
proof -
  have "numeric_column sample ''gdpPercap''"
    unfolding numeric_column_def sample_field by (simp add: sample_def nth_cell_def)
  moreover have "numeric_column sample ''lifeExp''"
    unfolding numeric_column_def sample_field by (simp add: sample_def nth_cell_def)
  moreover have "numeric_column sample ''pop''"
    unfolding numeric_column_def sample_field by (simp add: sample_def nth_cell_def)
  ultimately show ?thesis by (simp add: numeric_fields_def)
qed

theorem update_correlation_matrix_degenerate_witness:
  "has_columns sample [''continent'', ''gdpPercap'', ''lifeExp'', ''pop'']
   \<and> list_all (numeric_column sample) numeric_fields
   \<and> length (filter (\<lambda>r. field sample ''continent'' r = Str ''Oceania'') (rows sample)) = 1
   \<and> update_correlation_matrix sample ''Oceania'' =
       Inr (Imshow \<lparr>row_labels = [''gdpPercap'', ''lifeExp'', ''pop''],
                    col_labels = [''gdpPercap'', ''lifeExp'', ''pop''],
                    entries = [[NaN, NaN, NaN], [NaN, NaN, NaN], [NaN, NaN, NaN]]\<rparr>
              True [(''color'', ''Correlation'')] ''Correlation Matrix for Oceania'')
   \<and> length (filter (\<lambda>r. field sample ''continent'' r = Str ''Antarctica'') (rows sample)) = 0
   \<and> update_correlation_matrix sample ''Antarctica'' =
       Inr (Imshow \<lparr>row_labels = [''gdpPercap'', ''lifeExp'', ''pop''],
                    col_labels = [''gdpPercap'', ''lifeExp'', ''pop''],
                    entries = [[NaN, NaN, NaN], [NaN, NaN, NaN], [NaN, NaN, NaN]]\<rparr>
              True [(''color'', ''Correlation'')] ''Correlation Matrix for Antarctica'')"
proof -
  have cols: "has_columns sample [''continent'', ''gdpPercap'', ''lifeExp'', ''pop'']"
    by (simp add: has_columns_def sample_def)
  have one: "length (filter (\<lambda>r. field sample ''continent'' r = Str ''Oceania'') (rows sample)) = 1"
    unfolding sample_field by (simp add: sample_def nth_cell_def)
  have none: "length (filter (\<lambda>r. field sample ''continent'' r = Str ''Antarctica'') (rows sample)) = 0"
    unfolding sample_field by (simp add: sample_def nth_cell_def)
  have few: "length (filter (\<lambda>r. field sample ''continent'' r = Str ''Oceania'') (rows sample)) < 2"
    using one by simp
  have few': "length (filter (\<lambda>r. field sample ''continent'' r = Str ''Antarctica'') (rows sample)) < 2"
    using none by simp
  show ?thesis
    using update_correlation_matrix_degenerate[OF cols sample_numeric few]
      update_correlation_matrix_degenerate[OF cols sample_numeric few']
      cols sample_numeric one none
    by simp
qed

end
